theory Spec2Isabelle
  imports Complex_Main
begin

section \<open>The paper-trading portfolio ledger\<close>

text \<open>
  A shallow embedding of \<^verbatim>\<open>src/trading/portfolio.py\<close> and of the models it uses
  (\<^verbatim>\<open>src/models/base.py\<close>, \<^verbatim>\<open>src/models/trade.py\<close>).

  Python floats are modelled as exact reals; the one place where the two differ in
  control flow, true division by zero, is written out (it raises
  \<^verbatim>\<open>ZeroDivisionError\<close>). Timestamps (\<^verbatim>\<open>datetime.utcnow()\<close>) and the
  identifiers derived from \<^verbatim>\<open>uuid.uuid4()\<close> are read from the environment, so the
  functions that use them take them as arguments.
\<close>

subsection \<open>Enumerations (models/base.py)\<close>

datatype OrderType = MARKET | LIMIT

datatype OrderStatus = PENDING | FILLED | CANCELLED | REJECTED

datatype PositionSide = LONG | SHORT | NONE

subsection \<open>Exceptions and outcomes\<close>

text \<open>
  A method either returns a value or raises. Since the methods mutate the portfolio in
  place, the state reached at the moment of a raise is kept next to the outcome: every
  function below returns a pair of an outcome and the portfolio as it then stands.
\<close>

datatype py_error = ZeroDivisionError | ValidationError | TypeError

datatype 'a outcome = Returns 'a | Raises py_error

subsection \<open>Models (models/trade.py)\<close>

text \<open>
  The field \<^verbatim>\<open>created_at\<close> of an order is never read by the ledger and is left out.
  Fields of \<^verbatim>\<open>Position\<close> and \<^verbatim>\<open>Trade\<close> whose names would clash with those of
  another record carry the prefix \<open>pos_\<close>, respectively \<open>t_\<close>.
\<close>

record Order =
  order_id :: string
  algorithm_id :: string
  symbol :: string
  order_type :: OrderType
  side :: PositionSide
  quantity :: real
  limit_price :: "real option"
  filled_price :: "real option"
  status :: OrderStatus
  filled_at :: "nat option"
  commission :: real
  slippage :: real

record Trade =
  trade_id :: string
  t_algorithm_id :: string
  t_symbol :: string
  entry_order_id :: string
  entry_price :: real
  entry_time :: "nat option"
  entry_quantity :: real
  exit_order_id :: "string option"
  exit_price :: "real option"
  exit_time :: "nat option"
  exit_quantity :: "real option"
  gross_pnl :: "real option"
  net_pnl :: "real option"
  pnl_percent :: "real option"
  total_commission :: real
  t_total_slippage :: real
  is_open :: bool

record Position =
  pos_symbol :: string
  pos_algorithm_id :: string
  pos_side :: PositionSide
  pos_quantity :: real
  pos_average_price :: real
  current_price :: "real option"
  market_value :: "real option"
  unrealized_pnl :: "real option"
  unrealized_pnl_percent :: "real option"
  pos_opened_at :: "nat option"

text \<open>
  The models are pydantic models: the constraints of their \<^verbatim>\<open>Field\<close> declarations
  are checked when an object is constructed (not when a field is assigned), and a
  violated constraint raises \<^verbatim>\<open>ValidationError\<close>.
\<close>

definition gt0_opt :: "real option \<Rightarrow> bool" where
  "gt0_opt x = (case x of None \<Rightarrow> True | Some v \<Rightarrow> 0 < v)"

definition ge0_opt :: "real option \<Rightarrow> bool" where
  "ge0_opt x = (case x of None \<Rightarrow> True | Some v \<Rightarrow> 0 \<le> v)"

definition Order_valid :: "Order \<Rightarrow> bool" where
  "Order_valid ord \<longleftrightarrow>
     0 < quantity ord \<and> gt0_opt (limit_price ord) \<and> gt0_opt (filled_price ord) \<and>
     0 \<le> commission ord \<and> 0 \<le> slippage ord"

definition Trade_valid :: "Trade \<Rightarrow> bool" where
  "Trade_valid t \<longleftrightarrow>
     0 < entry_price t \<and> entry_time t \<noteq> None \<and> 0 < entry_quantity t \<and>
     gt0_opt (exit_price t) \<and> gt0_opt (exit_quantity t) \<and>
     0 \<le> total_commission t \<and> 0 \<le> t_total_slippage t"

definition Position_valid :: "Position \<Rightarrow> bool" where
  "Position_valid p \<longleftrightarrow>
     0 \<le> pos_quantity p \<and> 0 \<le> pos_average_price p \<and> gt0_opt (current_price p) \<and>
     ge0_opt (market_value p)"

subsection \<open>The portfolio (trading/portfolio.py)\<close>

text \<open>
  Orders are objects shared between the caller and the portfolio's order history:
  \<^verbatim>\<open>execute_order\<close> mutates the order it is given, and \<^verbatim>\<open>_close_position\<close>
  later reads that mutation through \<^verbatim>\<open>self.orders\<close>. The model therefore keeps the
  order objects in a store \<open>heap\<close>, addressed by their index, and the history
  \<open>orders\<close> is a list of such references. A reference handed to a function always
  designates a live object, so only references below \<open>length (heap s)\<close> model a call of
  the source.
\<close>

record Portfolio =
  initial_capital :: real
  cash :: real
  commission_rate :: real
  slippage_rate :: real
  positions :: "string \<rightharpoonup> Position"
  heap :: "Order list"
  orders :: "nat list"
  trades :: "Trade list"
  peak_value :: real
  total_commissions :: real
  total_slippage :: real

definition Portfolio_init :: "real \<Rightarrow> real \<Rightarrow> real \<Rightarrow> Portfolio" where
  "Portfolio_init capital c_rate s_rate =
     \<lparr>initial_capital = capital, cash = capital, commission_rate = c_rate,
      slippage_rate = s_rate, positions = Map.empty, heap = [], orders = [], trades = [],
      peak_value = capital, total_commissions = 0, total_slippage = 0\<rparr>"

definition position_key :: "string \<Rightarrow> string \<Rightarrow> string" where
  "position_key alg symb = alg @ '':'' @ symb"

definition get_position :: "Portfolio \<Rightarrow> string \<Rightarrow> string \<Rightarrow> Position option" where
  "get_position s symb alg = positions s (position_key alg symb)"

definition create_order ::
  "Portfolio \<Rightarrow> string \<Rightarrow> string \<Rightarrow> PositionSide \<Rightarrow> real \<Rightarrow> OrderType \<Rightarrow> real option \<Rightarrow>
   string \<Rightarrow> nat outcome \<times> Portfolio" where
  "create_order s symb alg sd qty otype lprice oid =
     (let ord = \<lparr>order_id = oid, algorithm_id = alg, symbol = symb, order_type = otype,
                 side = sd, quantity = qty, limit_price = lprice, filled_price = None,
                 status = PENDING, filled_at = None, commission = 0, slippage = 0\<rparr>
      in if \<not> Order_valid ord then (Raises ValidationError, s)
         else (Returns (length (heap s)),
               s\<lparr>heap := heap s @ [ord], orders := orders s @ [length (heap s)]\<rparr>))"

text \<open>The loop of \<^verbatim>\<open>_close_position\<close>: the most recent filled buy of the position's
  symbol and algorithm in the order history.\<close>

definition is_entry_for :: "Position \<Rightarrow> Order \<Rightarrow> bool" where
  "is_entry_for position ord \<longleftrightarrow>
     symbol ord = pos_symbol position \<and> algorithm_id ord = pos_algorithm_id position \<and>
     side ord = LONG \<and> status ord = FILLED"

definition find_entry_order :: "Portfolio \<Rightarrow> Position \<Rightarrow> nat option" where
  "find_entry_order s position =
     find (\<lambda>r. is_entry_for position (heap s ! r)) (rev (orders s))"

definition close_position ::
  "Portfolio \<Rightarrow> nat \<Rightarrow> Position \<Rightarrow> string \<Rightarrow> unit outcome \<times> Portfolio" where
  "close_position s exit_ref position tid =
     (let exit_order = heap s ! exit_ref in
      case find_entry_order s position of
        None \<Rightarrow> (Returns (), s)
      | Some entry_ref \<Rightarrow>
          (let entry_order = heap s ! entry_ref in
           case filled_price exit_order of
             None \<Rightarrow> (Raises TypeError, s)
           | Some exit_filled \<Rightarrow>
               (let gross = (exit_filled - pos_average_price position) * pos_quantity position;
                    net = gross - (commission entry_order + commission exit_order
                                   + slippage entry_order + slippage exit_order)
                in if pos_average_price position * pos_quantity position = 0
                   then (Raises ZeroDivisionError, s)
                   else
                     (let percent = (gross / (pos_average_price position * pos_quantity position)) * 100;
                          trade = \<lparr>trade_id = tid,
                                   t_algorithm_id = pos_algorithm_id position,
                                   t_symbol = pos_symbol position,
                                   entry_order_id = order_id entry_order,
                                   entry_price = pos_average_price position,
                                   entry_time = filled_at entry_order,
                                   entry_quantity = pos_quantity position,
                                   exit_order_id = Some (order_id exit_order),
                                   exit_price = Some exit_filled,
                                   exit_time = filled_at exit_order,
                                   exit_quantity = Some (pos_quantity position),
                                   gross_pnl = Some gross,
                                   net_pnl = Some net,
                                   pnl_percent = Some percent,
                                   total_commission = commission entry_order + commission exit_order,
                                   t_total_slippage = slippage entry_order + slippage exit_order,
                                   is_open = False\<rparr>
                      in if \<not> Trade_valid trade then (Raises ValidationError, s)
                         else (Returns (), s\<lparr>trades := trades s @ [trade]\<rparr>)))))"

definition update_position :: "Portfolio \<Rightarrow> nat \<Rightarrow> string \<Rightarrow> unit outcome \<times> Portfolio" where
  "update_position s r tid =
     (let ord = heap s ! r;
          key = position_key (algorithm_id ord) (symbol ord)
      in if side ord = LONG then
           (case positions s key of
              None \<Rightarrow>
                (case filled_price ord of
                   None \<Rightarrow> (Raises ValidationError, s)
                 | Some fp \<Rightarrow>
                     (let p = \<lparr>pos_symbol = symbol ord, pos_algorithm_id = algorithm_id ord,
                               pos_side = LONG, pos_quantity = quantity ord,
                               pos_average_price = fp, current_price = None,
                               market_value = None, unrealized_pnl = None,
                               unrealized_pnl_percent = None, pos_opened_at = filled_at ord\<rparr>
                      in if \<not> Position_valid p then (Raises ValidationError, s)
                         else (Returns (), s\<lparr>positions := (positions s)(key \<mapsto> p)\<rparr>)))
            | Some position \<Rightarrow>
                (case filled_price ord of
                   None \<Rightarrow> (Raises TypeError, s)
                 | Some fp \<Rightarrow>
                     (let total_cost = pos_average_price position * pos_quantity position
                                       + fp * quantity ord;
                          p1 = position\<lparr>pos_quantity := pos_quantity position + quantity ord\<rparr>
                      in if pos_quantity p1 = 0
                         then (Raises ZeroDivisionError, s\<lparr>positions := (positions s)(key \<mapsto> p1)\<rparr>)
                         else (Returns (),
                               s\<lparr>positions := (positions s)(key \<mapsto>
                                    p1\<lparr>pos_average_price := total_cost / pos_quantity p1,
                                       pos_side := LONG\<rparr>)\<rparr>))))
         else if side ord = SHORT then
           (case positions s key of
              None \<Rightarrow> (Returns (), s)
            | Some position \<Rightarrow>
                (let p1 = position\<lparr>pos_quantity := pos_quantity position - quantity ord\<rparr>;
                     s1 = s\<lparr>positions := (positions s)(key \<mapsto> p1)\<rparr>
                 in if pos_quantity p1 \<le> 0 then
                      (case close_position s1 r p1 tid of
                         (Raises e, s2) \<Rightarrow> (Raises e, s2)
                       | (Returns u, s2) \<Rightarrow>
                           (Returns (), s2\<lparr>positions := (positions s2)(key := None)\<rparr>))
                    else (Returns (), s1)))
         else (Returns (), s))"

definition execute_order ::
  "Portfolio \<Rightarrow> nat \<Rightarrow> real \<Rightarrow> nat \<Rightarrow> string \<Rightarrow> bool outcome \<times> Portfolio" where
  "execute_order s r price now tid =
     (let ord = heap s ! r in
      if status ord \<noteq> PENDING then (Returns False, s)
      else if order_type ord = LIMIT \<and> limit_price ord = None
        then (Returns False, s\<lparr>heap := (heap s)[r := ord\<lparr>status := REJECTED\<rparr>]\<rparr>)
      else if order_type ord = LIMIT \<and> side ord = LONG \<and> price > the (limit_price ord)
        then (Returns False, s)
      else if order_type ord = LIMIT \<and> side ord = SHORT \<and> price < the (limit_price ord)
        then (Returns False, s)
      else
        (let slippage_amount = price * slippage_rate s;
             execution_price = (if side ord = LONG then price + slippage_amount
                                else price - slippage_amount);
             trade_value = execution_price * quantity ord;
             comm = trade_value * commission_rate s
         in if side ord = LONG \<and> cash s < trade_value + comm
            then (Returns False, s\<lparr>heap := (heap s)[r := ord\<lparr>status := REJECTED\<rparr>]\<rparr>)
            else
              (let ord1 = ord\<lparr>filled_price := Some execution_price, filled_at := Some now,
                             commission := comm, slippage := slippage_amount * quantity ord,
                             status := FILLED\<rparr>;
                   s1 = s\<lparr>heap := (heap s)[r := ord1],
                          total_commissions := total_commissions s + comm,
                          total_slippage := total_slippage s + slippage ord1\<rparr>
               in case update_position s1 r tid of
                    (Raises e, s2) \<Rightarrow> (Raises e, s2)
                  | (Returns u, s2) \<Rightarrow>
                      (Returns True,
                       s2\<lparr>cash := (if side ord = LONG then cash s2 - (trade_value + comm)
                                   else cash s2 + (trade_value - comm))\<rparr>))))"

subsection \<open>Callers\<close>

text \<open>
  A caller of the ledger (\<^verbatim>\<open>main.py\<close>) interleaves \<^verbatim>\<open>create_order\<close> and
  \<^verbatim>\<open>execute_order\<close>. A call sequence is a list of operations; an execution names
  the order by its reference. When a call raises, the portfolio keeps the state it had
  at the raise, and a caller that catches the exception goes on from there.
\<close>

datatype op =
    CreateOrder string string PositionSide real OrderType "real option" string
  | ExecuteOrder nat real nat string

fun step :: "Portfolio \<Rightarrow> op \<Rightarrow> Portfolio" where
  "step s (CreateOrder symb alg sd qty otype lprice oid) =
     snd (create_order s symb alg sd qty otype lprice oid)"
| "step s (ExecuteOrder r price now tid) =
     (if r < length (heap s) then snd (execute_order s r price now tid) else s)"

definition run :: "Portfolio \<Rightarrow> op list \<Rightarrow> Portfolio" where
  "run s ops = foldl step s ops"

fun exec_price_ok :: "op \<Rightarrow> bool" where
  "exec_price_ok (ExecuteOrder r price now tid) = (0 \<le> price)"
| "exec_price_ok (CreateOrder symb alg sd qty otype lprice oid) = True"

text \<open>Filled orders applied to the position book one after the other, stopping at the
  first raise.\<close>

fun apply_fills :: "Portfolio \<Rightarrow> nat list \<Rightarrow> string \<Rightarrow> unit outcome \<times> Portfolio" where
  "apply_fills s [] tid = (Returns (), s)"
| "apply_fills s (r # rs) tid =
     (case update_position s r tid of
        (Raises e, s') \<Rightarrow> (Raises e, s')
      | (Returns u, s') \<Rightarrow> apply_fills s' rs tid)"

subsection \<open>Scenarios\<close>

text \<open>Capital 1000; buy 5 AAPL at 100 and fill; then a pending order to sell all 5.\<close>

definition before_full_close :: "real \<Rightarrow> real \<Rightarrow> Portfolio" where
  "before_full_close c_rate s_rate =
     run (Portfolio_init 1000 c_rate s_rate)
       [CreateOrder ''AAPL'' ''alg'' LONG 5 MARKET None ''ORD-1'',
        ExecuteOrder 0 100 1 ''TRADE-1'',
        CreateOrder ''AAPL'' ''alg'' SHORT 5 MARKET None ''ORD-2'']"

text \<open>Capital 100 at the default rates; a pending order to sell 1 AAPL, nothing held.\<close>

definition sell_without_position :: Portfolio where
  "sell_without_position =
     run (Portfolio_init 100 (1 / 1000) (5 / 10000))
       [CreateOrder ''AAPL'' ''alg'' SHORT 1 MARKET None ''ORD-1'']"

text \<open>Capital 1000, zero rates; a pending buy of 5 units of symbol \<open>b:c\<close> for the
  algorithm \<open>a\<close>.\<close>

definition before_colliding_fill :: Portfolio where
  "before_colliding_fill =
     run (Portfolio_init 1000 0 0) [CreateOrder ''b:c'' ''a'' LONG 5 MARKET None ''ORD-1'']"

text \<open>Capital 1000, zero rates; four pending limit orders for 5 AAPL: a buy without a
  limit price, a buy limited at 90, a sell limited at 110 and a buy limited at 120.\<close>

definition limit_orders_book :: Portfolio where
  "limit_orders_book =
     run (Portfolio_init 1000 0 0)
       [CreateOrder ''AAPL'' ''alg'' LONG 5 LIMIT None ''ORD-1'',
        CreateOrder ''AAPL'' ''alg'' LONG 5 LIMIT (Some 90) ''ORD-2'',
        CreateOrder ''AAPL'' ''alg'' SHORT 5 LIMIT (Some 110) ''ORD-3'',
        CreateOrder ''AAPL'' ''alg'' LONG 5 LIMIT (Some 120) ''ORD-4'']"

text \<open>The portfolio after the full close at 130 has raised (default rates), and the
  position as it was held before that sale: 5 AAPL at an average of 100.05.\<close>

definition after_failed_close :: Portfolio where
  "after_failed_close =
     snd (execute_order (before_full_close (1 / 1000) (5 / 10000)) 1 130 2 ''TRADE-2'')"

definition held_position :: Position where
  "held_position =
     \<lparr>pos_symbol = ''AAPL'', pos_algorithm_id = ''alg'', pos_side = LONG, pos_quantity = 5,
      pos_average_price = 2001 / 20, current_price = None, market_value = None,
      unrealized_pnl = None, unrealized_pnl_percent = None, pos_opened_at = Some 1\<rparr>"

section \<open>Properties\<close>

lemmas ledger_defs =
  Portfolio_init_def create_order_def execute_order_def update_position_def
  close_position_def find_entry_order_def is_entry_for_def Order_valid_def
  Position_valid_def Trade_valid_def gt0_opt_def ge0_opt_def position_key_def
  get_position_def run_def Let_def

subsection \<open>Executing an order that is not pending\<close>

text \<open>
  C7. An order whose status is not PENDING (FILLED, REJECTED, and CANCELLED as well) is
  not executed again: \<^verbatim>\<open>execute_order\<close> returns false and the portfolio, the order
  included, is exactly what it was.
\<close>

theorem C7_not_pending_noop:
  "status (heap s ! r) \<noteq> PENDING \<Longrightarrow> execute_order s r price now tid = (Returns False, s)"
  by (simp add: execute_order_def)

theorem C7_not_pending_noop_witness:
  "status (heap (before_full_close 0 0) ! 0) \<noteq> PENDING \<and>
   execute_order (before_full_close 0 0) 0 100 3 ''TRADE-3''
     = (Returns False, before_full_close 0 0)"
proof -
  have h: "status (heap (before_full_close 0 0) ! 0) \<noteq> PENDING"
    by (simp add: before_full_close_def ledger_defs)
  show ?thesis
    using h C7_not_pending_noop [OF h, of 100 3 "''TRADE-3''"] by simp
qed

subsection \<open>Closing a whole position\<close>

text \<open>
  C1 (the code departs from the claim). Selling all 5 shares of the 5-share position
  entered at 100, at 130 and with zero rates, does not record a trade: the quantity of
  the position is decremented to 0 before \<^verbatim>\<open>_close_position\<close> computes with it, the
  percentage divides by \<open>100 * 0\<close>, and \<^verbatim>\<open>execute_order\<close> raises
  \<^verbatim>\<open>ZeroDivisionError\<close>. No trade is recorded and the position stays in the book
  with quantity 0.
\<close>

theorem C1_full_close_raises:
  "fst (execute_order (before_full_close 0 0) 1 130 2 ''TRADE-2'') = Raises ZeroDivisionError \<and>
   trades (snd (execute_order (before_full_close 0 0) 1 130 2 ''TRADE-2'')) = [] \<and>
   map_option pos_quantity
     (get_position (snd (execute_order (before_full_close 0 0) 1 130 2 ''TRADE-2''))
        ''AAPL'' ''alg'') = Some 0"
  by (simp add: before_full_close_def ledger_defs)

text \<open>
  C2 (the code departs from the claim). At the default rates the same full close leaves
  the portfolio half updated: the order is FILLED and the cumulative commission and
  slippage have grown, but the raise in \<^verbatim>\<open>_close_position\<close> comes before the cash
  update and before the position is deleted, so cash is what it was, no trade is
  recorded and the position is still in the book, with quantity 0.
\<close>

theorem C2_full_close_not_atomic:
  "status (heap (before_full_close (1 / 1000) (5 / 10000)) ! 1) = PENDING \<and>
   (case execute_order (before_full_close (1 / 1000) (5 / 10000)) 1 130 2 ''TRADE-2'' of
      (out, s') \<Rightarrow>
        out = Raises ZeroDivisionError \<and>
        status (heap s' ! 1) = FILLED \<and>
        total_commissions s'
          = total_commissions (before_full_close (1 / 1000) (5 / 10000)) + 25987 / 40000 \<and>
        total_slippage s'
          = total_slippage (before_full_close (1 / 1000) (5 / 10000)) + 13 / 40 \<and>
        cash s' = cash (before_full_close (1 / 1000) (5 / 10000)) \<and>
        trades s' = trades (before_full_close (1 / 1000) (5 / 10000)) \<and>
        map_option pos_quantity (get_position s' ''AAPL'' ''alg'') = Some 0)"
  by (simp add: before_full_close_def ledger_defs)

subsection \<open>Selling what is not held\<close>

text \<open>
  C3 (the code departs from the claim). A sell order for a key with no position is
  filled all the same: \<^verbatim>\<open>_update_position\<close> returns without touching the book, but
  \<^verbatim>\<open>execute_order\<close> has already marked the order FILLED and raised the cumulative
  commission and slippage, and afterwards credits the proceeds to cash. With capital 100
  at the default rates, selling 1 unit at 100 returns true and raises cash from 100 to
  199.85005.
\<close>

theorem C3_sell_without_position_credits_cash:
  "get_position sell_without_position ''AAPL'' ''alg'' = None \<and>
   cash sell_without_position = 100 \<and>
   total_commissions sell_without_position = 0 \<and>
   total_slippage sell_without_position = 0 \<and>
   (case execute_order sell_without_position 0 100 1 ''TRADE-1'' of
      (out, s') \<Rightarrow>
        out = Returns True \<and>
        status (heap s' ! 0) = FILLED \<and>
        cash s' = 3997001 / 20000 \<and>
        total_commissions s' = 1999 / 20000 \<and>
        total_slippage s' = 1 / 20 \<and>
        positions s' = positions sell_without_position \<and>
        trades s' = trades sell_without_position)"
  by (simp add: sell_without_position_def ledger_defs)

subsection \<open>Keys of the position book\<close>

text \<open>
  C10. The key of the position book is the algorithm identifier, a colon and the symbol,
  so it does not determine the pair: algorithm \<open>a\<close> with symbol \<open>b:c\<close> and algorithm
  \<open>a:b\<close> with symbol \<open>c\<close> are different pairs with the same key. Filling a buy for
  the first pair makes \<^verbatim>\<open>get_position\<close> return that position for the second pair,
  which had none before.
\<close>

theorem C10_position_key_collision:
  "(''a'', ''b:c'') \<noteq> (''a:b'', ''c'') \<and>
   position_key ''a'' ''b:c'' = position_key ''a:b'' ''c'' \<and>
   get_position before_colliding_fill ''c'' ''a:b'' = None \<and>
   fst (execute_order before_colliding_fill 0 100 1 ''TRADE-1'') = Returns True \<and>
   map_option pos_quantity
     (get_position (snd (execute_order before_colliding_fill 0 100 1 ''TRADE-1'')) ''c'' ''a:b'')
     = Some 5 \<and>
   get_position (snd (execute_order before_colliding_fill 0 100 1 ''TRADE-1'')) ''c'' ''a:b''
     = get_position (snd (execute_order before_colliding_fill 0 100 1 ''TRADE-1'')) ''b:c'' ''a''"
  by (simp add: before_colliding_fill_def ledger_defs)

subsection \<open>What each method leaves alone\<close>

lemma close_position_frame:
  assumes "close_position s xr p tid = (out, s')"
  shows "heap s' = heap s \<and> orders s' = orders s \<and> cash s' = cash s \<and>
         positions s' = positions s \<and> commission_rate s' = commission_rate s \<and>
         slippage_rate s' = slippage_rate s \<and> total_commissions s' = total_commissions s \<and>
         total_slippage s' = total_slippage s"
  using assms by (auto simp: close_position_def Let_def split: option.splits if_splits)

lemma update_position_frame:
  assumes "update_position s r tid = (out, s')"
  shows "heap s' = heap s \<and> orders s' = orders s \<and> cash s' = cash s \<and>
         commission_rate s' = commission_rate s \<and>
         slippage_rate s' = slippage_rate s \<and> total_commissions s' = total_commissions s \<and>
         total_slippage s' = total_slippage s"
  using assms unfolding update_position_def Let_def
  by (auto split: option.splits if_splits prod.splits outcome.splits dest!: close_position_frame)

lemma execute_order_frame:
  assumes "execute_order s r price now tid = (out, s')"
  shows "orders s' = orders s \<and> commission_rate s' = commission_rate s \<and>
         slippage_rate s' = slippage_rate s \<and> length (heap s') = length (heap s) \<and>
         (\<forall>i. i \<noteq> r \<longrightarrow> heap s' ! i = heap s ! i)"
  using assms unfolding execute_order_def Let_def
  by (auto split: option.splits if_splits prod.splits outcome.splits dest!: update_position_frame)

subsection \<open>Limit orders\<close>


lemma execute_order_filled_passes_limit:
  assumes "r < length (heap s)" and "status (heap s ! r) = PENDING"
    and "order_type (heap s ! r) = LIMIT"
    and "status (heap (snd (execute_order s r price now tid)) ! r) = FILLED"
  shows "\<exists>l. limit_price (heap s ! r) = Some l \<and>
           (side (heap s ! r) = LONG \<longrightarrow> price \<le> l) \<and>
           (side (heap s ! r) = SHORT \<longrightarrow> l \<le> price)"
  using assms unfolding execute_order_def Let_def
  by (auto split: if_splits)

text \<open>
  C5. For a pending LIMIT order: without a limit price, \<^verbatim>\<open>execute_order\<close> sets the
  status to REJECTED, changes nothing else and returns false; with a limit price, a buy
  at a price above the limit and a sell at a price below it return false and leave the
  portfolio, the order included (so still PENDING), exactly as it was; and whenever the
  execution leaves the order FILLED, it had a limit price, and the price was at most the
  limit for a buy and at least the limit for a sell.
\<close>

theorem C5_limit_orders:
  assumes "r < length (heap s)" and "status (heap s ! r) = PENDING"
    and "order_type (heap s ! r) = LIMIT"
  shows "(limit_price (heap s ! r) = None \<longrightarrow>
            execute_order s r price now tid
              = (Returns False, s\<lparr>heap := (heap s)[r := (heap s ! r)\<lparr>status := REJECTED\<rparr>]\<rparr>)) \<and>
         (\<forall>l. limit_price (heap s ! r) = Some l \<longrightarrow>
            (side (heap s ! r) = LONG \<and> l < price \<or> side (heap s ! r) = SHORT \<and> price < l) \<longrightarrow>
            execute_order s r price now tid = (Returns False, s)) \<and>
         (status (heap (snd (execute_order s r price now tid)) ! r) = FILLED \<longrightarrow>
            (\<exists>l. limit_price (heap s ! r) = Some l \<and>
               (side (heap s ! r) = LONG \<longrightarrow> price \<le> l) \<and>
               (side (heap s ! r) = SHORT \<longrightarrow> l \<le> price)))"
proof (intro conjI impI allI)
  assume "limit_price (heap s ! r) = None"
  with assms show "execute_order s r price now tid
      = (Returns False, s\<lparr>heap := (heap s)[r := (heap s ! r)\<lparr>status := REJECTED\<rparr>]\<rparr>)"
    by (simp add: execute_order_def Let_def)
next
  fix l
  assume "limit_price (heap s ! r) = Some l"
    and "side (heap s ! r) = LONG \<and> l < price \<or> side (heap s ! r) = SHORT \<and> price < l"
  with assms show "execute_order s r price now tid = (Returns False, s)"
    by (auto simp: execute_order_def Let_def)
next
  assume "status (heap (snd (execute_order s r price now tid)) ! r) = FILLED"
  with assms show "\<exists>l. limit_price (heap s ! r) = Some l \<and>
               (side (heap s ! r) = LONG \<longrightarrow> price \<le> l) \<and>
               (side (heap s ! r) = SHORT \<longrightarrow> l \<le> price)"
    by (rule execute_order_filled_passes_limit)
qed

theorem C5_limit_orders_witness:
  "execute_order limit_orders_book 0 100 1 ''TRADE-1''
     = (Returns False,
        limit_orders_book\<lparr>heap := (heap limit_orders_book)
          [0 := (heap limit_orders_book ! 0)\<lparr>status := REJECTED\<rparr>]\<rparr>) \<and>
   execute_order limit_orders_book 1 100 1 ''TRADE-1'' = (Returns False, limit_orders_book) \<and>
   execute_order limit_orders_book 2 100 1 ''TRADE-1'' = (Returns False, limit_orders_book) \<and>
   status (heap (snd (execute_order limit_orders_book 3 100 1 ''TRADE-1'')) ! 3) = FILLED \<and>
   (\<exists>l. limit_price (heap limit_orders_book ! 3) = Some l \<and> 100 \<le> l)"
proof -
  have len: "length (heap limit_orders_book) = 4"
    by (simp add: limit_orders_book_def ledger_defs)
  have pend: "status (heap limit_orders_book ! 0) = PENDING" "status (heap limit_orders_book ! 1) = PENDING"
     "status (heap limit_orders_book ! 2) = PENDING" "status (heap limit_orders_book ! 3) = PENDING"
    by (simp_all add: limit_orders_book_def ledger_defs)
  have lim: "order_type (heap limit_orders_book ! 0) = LIMIT" "order_type (heap limit_orders_book ! 1) = LIMIT"
     "order_type (heap limit_orders_book ! 2) = LIMIT" "order_type (heap limit_orders_book ! 3) = LIMIT"
    by (simp_all add: limit_orders_book_def ledger_defs)
  have fields:
    "limit_price (heap limit_orders_book ! 0) = None"
    "limit_price (heap limit_orders_book ! 1) = Some 90 \<and> side (heap limit_orders_book ! 1) = LONG"
    "limit_price (heap limit_orders_book ! 2) = Some 110 \<and> side (heap limit_orders_book ! 2) = SHORT"
    "side (heap limit_orders_book ! 3) = LONG"
    by (simp_all add: limit_orders_book_def ledger_defs)
  have filled: "status (heap (snd (execute_order limit_orders_book 3 100 1 ''TRADE-1'')) ! 3) = FILLED"
    by (simp add: limit_orders_book_def ledger_defs)
  show ?thesis
    using len pend lim fields filled
      C5_limit_orders [of 0 limit_orders_book 100 1 "''TRADE-1''"]
      C5_limit_orders [of 1 limit_orders_book 100 1 "''TRADE-1''"]
      C5_limit_orders [of 2 limit_orders_book 100 1 "''TRADE-1''"]
      C5_limit_orders [of 3 limit_orders_book 100 1 "''TRADE-1''"]
    by auto
qed

subsection \<open>The trade record\<close>

lemma close_held_position:
  "close_position after_failed_close 1 held_position ''TRADE-3''
     = (Returns (), after_failed_close\<lparr>trades := trades after_failed_close @
         [\<lparr>trade_id = ''TRADE-3'', t_algorithm_id = ''alg'', t_symbol = ''AAPL'',
     entry_order_id = ''ORD-1'', entry_price = 2001 / 20,
     entry_time = Some 1, entry_quantity = 5,
     exit_order_id = Some ''ORD-2'', exit_price = Some (25987 / 200),
     exit_time = Some 2, exit_quantity = Some 5,
     gross_pnl = Some (5977 / 40), net_pnl = Some (5908003 / 40000),
     pnl_percent = Some (59770 / 2001), total_commission = 45997 / 40000,
     t_total_slippage = 23 / 40, is_open = False\<rparr>]\<rparr>)"
  by (simp add: after_failed_close_def held_position_def before_full_close_def ledger_defs)

text \<open>
  C6. Whenever \<^verbatim>\<open>_close_position\<close> records a trade, an entry order was matched, the
  trade's total commission and total slippage are the sums of the commission,
  respectively slippage, of that entry order and of the exit order, and its net P&L is
  its gross P&L minus its total commission minus its total slippage (in exact
  arithmetic).
\<close>

theorem C6_net_pnl_identity:
  assumes "close_position s xr p tid = (out, s')" and "trades s' = trades s @ [t]"
  shows "\<exists>er g. find_entry_order s p = Some er \<and>
           total_commission t = commission (heap s ! er) + commission (heap s ! xr) \<and>
           t_total_slippage t = slippage (heap s ! er) + slippage (heap s ! xr) \<and>
           gross_pnl t = Some g \<and>
           net_pnl t = Some (g - total_commission t - t_total_slippage t)"
  using assms unfolding close_position_def Let_def
  by (auto split: option.splits if_splits)

theorem C6_net_pnl_identity_witness:
  "fst (close_position after_failed_close 1 held_position ''TRADE-3'') = Returns () \<and>
   trades (snd (close_position after_failed_close 1 held_position ''TRADE-3''))
     = trades after_failed_close
       @ [last (trades (snd (close_position after_failed_close 1 held_position ''TRADE-3'')))] \<and>
   (\<exists>er g. find_entry_order after_failed_close held_position = Some er \<and>
      total_commission (last (trades (snd (close_position after_failed_close 1 held_position ''TRADE-3''))))
        = commission (heap after_failed_close ! er) + commission (heap after_failed_close ! 1) \<and>
      t_total_slippage (last (trades (snd (close_position after_failed_close 1 held_position ''TRADE-3''))))
        = slippage (heap after_failed_close ! er) + slippage (heap after_failed_close ! 1) \<and>
      gross_pnl (last (trades (snd (close_position after_failed_close 1 held_position ''TRADE-3''))))
        = Some g \<and>
      net_pnl (last (trades (snd (close_position after_failed_close 1 held_position ''TRADE-3''))))
        = Some (g
            - total_commission (last (trades (snd (close_position after_failed_close 1 held_position ''TRADE-3''))))
            - t_total_slippage (last (trades (snd (close_position after_failed_close 1 held_position ''TRADE-3''))))))"
proof -
  let ?r = "close_position after_failed_close 1 held_position ''TRADE-3''"
  have out: "fst ?r = Returns ()"
    unfolding close_held_position by simp
  have tr: "trades (snd ?r) = trades after_failed_close @ [last (trades (snd ?r))]"
    unfolding close_held_position by simp
  have run: "?r = (fst ?r, snd ?r)"
    by simp
  show ?thesis
    using out tr C6_net_pnl_identity [OF run tr] by blast
qed

end
